theory Spec2Isabelle
  imports Main "HOL-Library.AList"
begin

section \<open>Values, objects and the heap\<close>

text \<open>
  The Python values that reach this module.  Mutable objects are references into a heap,
  one constructor per class of object, so that \<open>isinstance\<close> is a test on the constructor
  and object identity is equality of references:
  \<^item> \<open>VDict a\<close>: a \<open>dict\<close> object (keys are strings, as in \<open>Dict[str, Any]\<close>);
  \<^item> \<open>VReq a\<close>: a \<open>web.Request\<close>; it is a mutable mapping over its per-request store;
  \<^item> \<open>VResp a\<close>: a \<open>web.StreamResponse\<close>; it is a mutable mapping over its own state;
  \<^item> \<open>VView a\<close>: an instance of a subclass of \<open>AbstractView\<close>;
  \<^item> \<open>VObj a\<close>: an instance of any other user class (for example the object that owns a
    handler method).
\<close>

type_synonym addr = nat

datatype pyval =
    VNone
  | VInt int
  | VStr string
  | VList "pyval list"
  | VDict addr
  | VReq addr
  | VResp addr
  | VView addr
  | VObj addr

text \<open>A dictionary's items in insertion order.\<close>

type_synonym pydict = "(string \<times> pyval) list"

record response =
  status :: int
  content_type :: string
  charset :: "string option"
  body_text :: "string option"
  state :: pydict

text \<open>The calls made on the template engine, in the order they are made.\<close>

datatype engine_call =
    GetTemplate string
  | Render string pydict
  | RenderAsync string pydict

record heap =
  dicts :: "addr \<Rightarrow> pydict"
  requests :: "addr \<Rightarrow> pydict"
  responses :: "addr \<Rightarrow> response"
  attrs :: "addr \<Rightarrow> pydict"
  class_name :: "addr \<Rightarrow> string"
  fresh :: addr
  codecs :: "string \<Rightarrow> (string \<Rightarrow> bool) option"
  warnings :: "string list"
  engine_calls :: "engine_call list"

text \<open>
  \<open>dicts h a\<close> are the items of the dict at \<open>a\<close>, \<open>requests h a\<close> the per-request store of
  the request at \<open>a\<close>, \<open>responses h a\<close> the response at \<open>a\<close>, \<open>attrs h a\<close> the instance
  attributes of the view or user object at \<open>a\<close> and \<open>class_name h a\<close> the qualified name of
  its class.  \<open>fresh h\<close> is the next unused address.  \<open>codecs h\<close> is the interpreter's
  codec registry: for the name of an encoding, whether a codec is found and, if so, which
  texts it can encode.  \<open>warnings h\<close> collects what \<open>warnings.warn\<close> was given.
\<close>

datatype exn =
    HTTPInternalServerError (reason: string) (body: string)
  | TemplateNotFound string
  | TypeError
  | ValueError
  | AttributeError
  | KeyError string
  | IndexError
  | LookupError
  | UnicodeEncodeError
  | RuntimeError
  | Raised string

section \<open>The external collaborators\<close>

text \<open>
  The template engine is opaque: a template is what its two render calls return for a
  context (the items of the mapping handed over) in a given heap, a text or an exception.
  A context processor is an async function of the request; it reads the heap and returns
  the items of its mapping, or raises.  A handler may change the heap.
\<close>

record jinja_template =
  render :: "pydict \<Rightarrow> heap \<Rightarrow> exn + string"
  render_async :: "pydict \<Rightarrow> heap \<Rightarrow> exn + string"

record environment =
  is_async :: bool
  get_template :: "string \<Rightarrow> exn + jinja_template"

type_synonym processor = "pyval \<Rightarrow> heap \<Rightarrow> exn + pydict"

text \<open>
  What this library stores in an application: an environment (by \<open>setup\<close>, under
  \<open>app_key\<close>) or the sequence of context processors.  \<open>request.config_dict\<close> holds functions
  over the heap, so it is not kept in the heap: a \<open>config_view\<close> gives, for the request at
  an address, the lookup of a key in its \<open>config_dict\<close>.
\<close>

datatype appval =
    AEnv environment
  | AProcessors "processor list"

type_synonym config = "string \<Rightarrow> appval option"

type_synonym config_view = "addr \<Rightarrow> config"

record handler =
  is_coroutine :: bool
  call :: "pyval list \<Rightarrow> heap \<Rightarrow> (exn + pyval) \<times> heap"

section \<open>Constants\<close>

definition APP_CONTEXT_PROCESSORS_KEY :: string where
  "APP_CONTEXT_PROCESSORS_KEY = ''aiohttp_jinja2_context_processors''"

definition APP_KEY :: string where
  "APP_KEY = ''aiohttp_jinja2_environment''"

definition REQUEST_CONTEXT_KEY :: string where
  "REQUEST_CONTEXT_KEY = ''aiohttp_jinja2_context''"

text \<open>The defaults of the keyword arguments \<open>encoding\<close> and \<open>status\<close>.\<close>

definition DEFAULT_ENCODING :: string where
  "DEFAULT_ENCODING = ''utf-8''"

definition DEFAULT_STATUS :: int where
  "DEFAULT_STATUS = 200"

section \<open>Python primitives\<close>

text \<open>\<open>d.update(other)\<close>: each item of \<open>other\<close>, in order, is stored in \<open>d\<close>.\<close>

definition dict_update :: "pydict \<Rightarrow> pydict \<Rightarrow> pydict" where
  "dict_update d other = fold (\<lambda>(k, v). AList.update k v) other d"

text \<open>
  \<open>isinstance(v, Mapping)\<close>, with the items of the mapping: dicts, and the framework's
  requests and responses over their own key-value store.
\<close>

fun mapping_items :: "pyval \<Rightarrow> heap \<Rightarrow> pydict option" where
  "mapping_items (VDict a) h = Some (dicts h a)"
| "mapping_items (VReq a) h = Some (requests h a)"
| "mapping_items (VResp a) h = Some (state (responses h a))"
| "mapping_items _ h = None"

text \<open>Storing the items of a mutable mapping in place.\<close>

fun set_items :: "pyval \<Rightarrow> pydict \<Rightarrow> heap \<Rightarrow> heap" where
  "set_items (VDict a) d h = h\<lparr>dicts := (dicts h)(a := d)\<rparr>"
| "set_items (VReq a) d h = h\<lparr>requests := (requests h)(a := d)\<rparr>"
| "set_items (VResp a) d h = h\<lparr>responses := (responses h)(a := (responses h a)\<lparr>state := d\<rparr>)\<rparr>"
| "set_items _ d h = h"

text \<open>
  Truth value testing: \<open>None\<close>, zero and the empty string, list and dict are false; the
  other objects are taken as true.
\<close>

fun truthy :: "pyval \<Rightarrow> heap \<Rightarrow> bool" where
  "truthy VNone h = False"
| "truthy (VInt n) h = (n \<noteq> 0)"
| "truthy (VStr s) h = (s \<noteq> [])"
| "truthy (VList xs) h = (xs \<noteq> [])"
| "truthy (VDict a) h = (dicts h a \<noteq> [])"
| "truthy _ h = True"

text \<open>A string between single quotes.\<close>

definition quoted :: "string \<Rightarrow> string" where
  "quoted s = [CHR 0x27] @ s @ [CHR 0x27]"

text \<open>\<open>str(type(v))\<close>, as \<open>format\<close> writes it.\<close>

fun type_repr :: "pyval \<Rightarrow> heap \<Rightarrow> string" where
  "type_repr VNone h = ''<class '' @ quoted ''NoneType'' @ ''>''"
| "type_repr (VInt n) h = ''<class '' @ quoted ''int'' @ ''>''"
| "type_repr (VStr s) h = ''<class '' @ quoted ''str'' @ ''>''"
| "type_repr (VList xs) h = ''<class '' @ quoted ''list'' @ ''>''"
| "type_repr (VDict a) h = ''<class '' @ quoted ''dict'' @ ''>''"
| "type_repr (VReq a) h = ''<class '' @ quoted ''aiohttp.web_request.Request'' @ ''>''"
| "type_repr (VResp a) h = ''<class '' @ quoted ''aiohttp.web_response.Response'' @ ''>''"
| "type_repr (VView a) h = ''<class '' @ quoted (class_name h a) @ ''>''"
| "type_repr (VObj a) h = ''<class '' @ quoted (class_name h a) @ ''>''"

text \<open>\<open>s.lower()\<close> on the letters A to Z; the other characters are kept.\<close>

definition lower_char :: "char \<Rightarrow> char" where
  "lower_char c =
     (case map_of (zip ''ABCDEFGHIJKLMNOPQRSTUVWXYZ'' ''abcdefghijklmnopqrstuvwxyz'') c of
        None \<Rightarrow> c
      | Some l \<Rightarrow> l)"

definition str_lower :: "string \<Rightarrow> string" where
  "str_lower s = map lower_char s"

text \<open>\<open>{}\<close>: a new empty dict.\<close>

definition new_dict :: "heap \<Rightarrow> addr \<times> heap" where
  "new_dict h = (fresh h, h\<lparr>dicts := (dicts h)(fresh h := []), fresh := Suc (fresh h)\<rparr>)"

text \<open>
  \<open>web.Response(status=status)\<close>: a new response; without a body it has the framework's
  default content type and no charset.
\<close>

definition new_response :: "int \<Rightarrow> heap \<Rightarrow> addr \<times> heap" where
  "new_response st h =
     (fresh h,
      h\<lparr>responses := (responses h)(fresh h :=
           \<lparr>status = st, content_type = ''application/octet-stream'', charset = None,
            body_text = None, state = []\<rparr>),
        fresh := Suc (fresh h)\<rparr>)"

definition log_call :: "engine_call \<Rightarrow> heap \<Rightarrow> heap" where
  "log_call c h = h\<lparr>engine_calls := engine_calls h @ [c]\<rparr>"

definition warn :: "string \<Rightarrow> heap \<Rightarrow> heap" where
  "warn msg h = h\<lparr>warnings := warnings h @ [msg]\<rparr>"

section \<open>render_string\<close>

definition not_initialized_text :: "string \<Rightarrow> string" where
  "not_initialized_text app_key =
     ''Template engine is not initialized, call aiohttp_jinja2.setup(..., app_key=''
       @ app_key @ '') first''"

definition not_found_text :: "string \<Rightarrow> string" where
  "not_found_text template_name = ''Template '' @ quoted template_name @ '' not found''"

definition not_mapping_text :: "pyval \<Rightarrow> heap \<Rightarrow> string" where
  "not_mapping_text context h = ''context should be mapping, not '' @ type_repr context h"

text \<open>
  \<open>dict(v)\<close>.  A mapping gives its items.  A list is taken as a sequence of key/value
  pairs: an element must be iterable (\<open>TypeError\<close> otherwise) and have exactly two elements
  (\<open>ValueError\<close> otherwise), where a string is the sequence of its characters and a mapping
  the sequence of its keys.  A non-empty string has elements of length one, so it always
  ends in \<open>ValueError\<close>.  No other value is iterable.  The contexts of the model are keyed
  by strings, as the keyword arguments are that the context is spread into: a pair whose
  key is not a string ends in \<open>TypeError\<close>.
\<close>

fun pair_of :: "pyval \<Rightarrow> heap \<Rightarrow> exn + pyval \<times> pyval" where
  "pair_of (VList xs) h = (case xs of [k, v] \<Rightarrow> Inr (k, v) | _ \<Rightarrow> Inl ValueError)"
| "pair_of (VStr s) h = (case s of [c, c'] \<Rightarrow> Inr (VStr [c], VStr [c']) | _ \<Rightarrow> Inl ValueError)"
| "pair_of VNone h = Inl TypeError"
| "pair_of (VInt n) h = Inl TypeError"
| "pair_of (VView a) h = Inl TypeError"
| "pair_of (VObj a) h = Inl TypeError"
| "pair_of v h =
     (case mapping_items v h of
        None \<Rightarrow> Inl TypeError
      | Some items \<Rightarrow>
          (case map fst items of [k, k'] \<Rightarrow> Inr (VStr k, VStr k') | _ \<Rightarrow> Inl ValueError))"

fun dict_of_pairs :: "pyval list \<Rightarrow> pydict \<Rightarrow> heap \<Rightarrow> exn + pydict" where
  "dict_of_pairs [] d h = Inr d"
| "dict_of_pairs (x # xs) d h =
     (case pair_of x h of
        Inl e \<Rightarrow> Inl e
      | Inr (k, v) \<Rightarrow>
          (case k of
             VStr key \<Rightarrow> dict_of_pairs xs (AList.update key v d) h
           | _ \<Rightarrow> Inl TypeError))"

fun dict_call :: "pyval \<Rightarrow> heap \<Rightarrow> exn + pydict" where
  "dict_call (VList xs) h = dict_of_pairs xs [] h"
| "dict_call (VStr s) h = (if s = [] then Inr [] else Inl ValueError)"
| "dict_call v h = (case mapping_items v h of None \<Rightarrow> Inl TypeError | Some items \<Rightarrow> Inr items)"

text \<open>
  Lines 81-82: \<open>if request.get(REQUEST_CONTEXT_KEY): context = dict(request[REQUEST_CONTEXT_KEY], **context)\<close>.
\<close>

definition merge_request_context :: "addr \<Rightarrow> pydict \<Rightarrow> heap \<Rightarrow> exn + pydict" where
  "merge_request_context a items h =
     (case map_of (requests h a) REQUEST_CONTEXT_KEY of
        None \<Rightarrow> Inr items
      | Some v \<Rightarrow>
          if truthy v h then
            (case dict_call v h of
               Inl e \<Rightarrow> Inl e
             | Inr acc \<Rightarrow> Inr (dict_update acc items))
          else Inr items)"

text \<open>
  Lines 61-87.  Only a request has \<open>config_dict\<close>; what is stored under \<open>app_key\<close> must be
  an environment for \<open>get_template\<close> to exist.  The template is looked up before the
  context is checked, and an exception of the engine other than \<open>TemplateNotFound\<close> is not
  caught.
\<close>

definition render_string ::
  "config_view \<Rightarrow> string \<Rightarrow> pyval \<Rightarrow> pyval \<Rightarrow> string \<Rightarrow> heap \<Rightarrow> (exn + string) \<times> heap" where
  "render_string cfg template_name request context app_key h =
     (case request of
        VReq a \<Rightarrow>
          (case cfg a app_key of
             None \<Rightarrow>
               (let text = not_initialized_text app_key
                in (Inl (HTTPInternalServerError text text), h))
           | Some (AProcessors ps) \<Rightarrow> (Inl AttributeError, h)
           | Some (AEnv env) \<Rightarrow>
               (let h1 = log_call (GetTemplate template_name) h in
                case get_template env template_name of
                  Inl e \<Rightarrow>
                    (case e of
                       TemplateNotFound n \<Rightarrow>
                         (let text = not_found_text template_name
                          in (Inl (HTTPInternalServerError text text), h1))
                     | _ \<Rightarrow> (Inl e, h1))
                | Inr tmpl \<Rightarrow>
                    (case mapping_items context h1 of
                       None \<Rightarrow>
                         (let text = not_mapping_text context h1
                          in (Inl (HTTPInternalServerError text text), h1))
                     | Some items \<Rightarrow>
                         (case merge_request_context a items h1 of
                            Inl e \<Rightarrow> (Inl e, h1)
                          | Inr ctx \<Rightarrow>
                              if is_async env
                              then (render_async tmpl ctx h1,
                                    log_call (RenderAsync template_name ctx) h1)
                              else (render tmpl ctx h1,
                                    log_call (Render template_name ctx) h1)))))
      | _ \<Rightarrow> (Inl AttributeError, h))"

section \<open>render_template\<close>

text \<open>Lines 101-102: \<open>if context is None: context = {}\<close>.\<close>

definition none_as_empty :: "pyval \<Rightarrow> heap \<Rightarrow> pyval \<times> heap" where
  "none_as_empty context h =
     (if context = VNone then (let (d, hd) = new_dict h in (VDict d, hd)) else (context, h))"

text \<open>
  The three assignments of lines 106-108, as the framework's response carries them out.
  \<open>response.content_type = v\<close> stores the value.  \<open>response.charset = v\<close> is refused with
  \<open>RuntimeError\<close> while the content type is the default one, and otherwise stores the value
  in lower case.  \<open>response.text = v\<close> first replaces a default content type by
  \<open>text/plain\<close> and a missing charset by \<open>utf-8\<close>, then encodes the text with the charset:
  an unknown encoding raises \<open>LookupError\<close>, a text that the codec cannot encode raises
  \<open>UnicodeEncodeError\<close>, and otherwise the text is the body.
\<close>

definition set_content_type :: "addr \<Rightarrow> string \<Rightarrow> heap \<Rightarrow> heap" where
  "set_content_type r v h =
     h\<lparr>responses := (responses h)(r := (responses h r)\<lparr>content_type := v\<rparr>)\<rparr>"

definition set_charset :: "addr \<Rightarrow> string \<Rightarrow> heap \<Rightarrow> exn option \<times> heap" where
  "set_charset r v h =
     (if content_type (responses h r) = ''application/octet-stream''
      then (Some RuntimeError, h)
      else (None,
            h\<lparr>responses := (responses h)(r := (responses h r)\<lparr>charset := Some (str_lower v)\<rparr>)\<rparr>))"

definition set_text :: "addr \<Rightarrow> string \<Rightarrow> heap \<Rightarrow> exn option \<times> heap" where
  "set_text r v h =
     (let h1 = (if content_type (responses h r) = ''application/octet-stream''
                then set_content_type r ''text/plain'' h else h);
          cs = (case charset (responses h1 r) of None \<Rightarrow> ''utf-8'' | Some c \<Rightarrow> c);
          h2 = h1\<lparr>responses := (responses h1)(r := (responses h1 r)\<lparr>charset := Some cs\<rparr>)\<rparr>
      in case codecs h2 cs of
           None \<Rightarrow> (Some LookupError, h2)
         | Some can_encode \<Rightarrow>
             if can_encode v
             then (None,
                   h2\<lparr>responses := (responses h2)(r := (responses h2 r)\<lparr>body_text := Some v\<rparr>)\<rparr>)
             else (Some UnicodeEncodeError, h2))"

definition render_template ::
  "config_view \<Rightarrow> string \<Rightarrow> pyval \<Rightarrow> pyval \<Rightarrow> string \<Rightarrow> string \<Rightarrow> int \<Rightarrow> heap
     \<Rightarrow> (exn + pyval) \<times> heap" where
  "render_template cfg template_name request context app_key encoding st h =
     (let (r, h1) = new_response st h;
          (context', h2) = none_as_empty context h1
      in case render_string cfg template_name request context' app_key h2 of
           (Inl e, h3) \<Rightarrow> (Inl e, h3)
         | (Inr text, h3) \<Rightarrow>
             (case set_charset r encoding (set_content_type r ''text/html'' h3) of
                (Some e, h5) \<Rightarrow> (Inl e, h5)
              | (None, h5) \<Rightarrow>
                  (case set_text r text h5 of
                     (Some e, h6) \<Rightarrow> (Inl e, h6)
                   | (None, h6) \<Rightarrow> (Inr (VResp r), h6))))"

section \<open>The template decorator\<close>

text \<open>\<open>isinstance(v, web.StreamResponse)\<close> and \<open>isinstance(v, AbstractView)\<close>.\<close>

fun is_stream_response :: "pyval \<Rightarrow> bool" where
  "is_stream_response (VResp r) = True"
| "is_stream_response _ = False"

fun is_abstract_view :: "pyval \<Rightarrow> bool" where
  "is_abstract_view (VView v) = True"
| "is_abstract_view _ = False"

text \<open>
  Lines 148-149: \<open>response.set_status(status)\<close>, then \<open>return response\<close>.  Only a response
  has \<open>set_status\<close>.
\<close>

fun set_status :: "pyval \<Rightarrow> int \<Rightarrow> heap \<Rightarrow> (exn + pyval) \<times> heap" where
  "set_status (VResp r) st h =
     (Inr (VResp r), h\<lparr>responses := (responses h)(r := (responses h r)\<lparr>status := st\<rparr>)\<rparr>)"
| "set_status _ st h = (Inl AttributeError, h)"

text \<open>
  \<open>v.request\<close>: views and instances of user classes keep it among their attributes; no
  other value has one.
\<close>

fun getattr_request :: "pyval \<Rightarrow> heap \<Rightarrow> pyval option" where
  "getattr_request (VView a) h = map_of (attrs h a) ''request''"
| "getattr_request (VObj a) h = map_of (attrs h a) ''request''"
| "getattr_request _ h = None"

text \<open>
  Lines 136-139: the request handed to \<open>render_template\<close>.  \<open>args[0]\<close> of an empty argument
  tuple raises; a view's \<open>request\<close> is read from its attributes.
\<close>

definition resolve_request :: "pyval list \<Rightarrow> heap \<Rightarrow> exn + pyval" where
  "resolve_request args h =
     (case args of
        [] \<Rightarrow> Inl IndexError
      | a0 # rest \<Rightarrow>
          if is_abstract_view a0 then
            (case getattr_request a0 h of
               None \<Rightarrow> Inl AttributeError
             | Some r \<Rightarrow> Inr r)
          else Inr (last args))"

text \<open>
  Lines 123-131: a handler that is not a coroutine function is warned about and adapted;
  then the handler is awaited on the positional arguments.
\<close>

definition call_handler :: "handler \<Rightarrow> pyval list \<Rightarrow> heap \<Rightarrow> (exn + pyval) \<times> heap" where
  "call_handler func args h =
     (if is_coroutine func then call func args h
      else call func args (warn ''Bare functions are deprecated, use async ones'' h))"

text \<open>
  \<open>template(template_name, app_key=..., encoding=..., status=...)(func)(*args)\<close>: the
  wrapped handler, run on its positional arguments.
\<close>

definition template ::
  "config_view \<Rightarrow> string \<Rightarrow> string \<Rightarrow> string \<Rightarrow> int \<Rightarrow> handler \<Rightarrow> pyval list \<Rightarrow> heap
     \<Rightarrow> (exn + pyval) \<times> heap" where
  "template cfg template_name app_key encoding st func args h =
     (case call_handler func args h of
        (Inl e, h1) \<Rightarrow> (Inl e, h1)
      | (Inr context, h1) \<Rightarrow>
          if is_stream_response context then (Inr context, h1)
          else
            (case resolve_request args h1 of
               Inl e \<Rightarrow> (Inl e, h1)
             | Inr request \<Rightarrow>
                 (case render_template cfg template_name request context app_key
                         encoding DEFAULT_STATUS h1 of
                    (Inl e, h2) \<Rightarrow> (Inl e, h2)
                  | (Inr response, h2) \<Rightarrow> set_status response st h2)))"

section \<open>The context-processor middleware\<close>

text \<open>
  The loop of lines 164-165.  In \<open>request[KEY].update(await processor(request))\<close> the
  target \<open>request[KEY]\<close> and its \<open>update\<close> method are evaluated before the processor is
  awaited; only a mutable mapping has \<open>update\<close>, which stores the returned items in the
  target itself.
\<close>

fun run_processors :: "processor list \<Rightarrow> addr \<Rightarrow> heap \<Rightarrow> exn option \<times> heap" where
  "run_processors [] a h = (None, h)"
| "run_processors (p # ps) a h =
     (case map_of (requests h a) REQUEST_CONTEXT_KEY of
        None \<Rightarrow> (Some (KeyError REQUEST_CONTEXT_KEY), h)
      | Some target \<Rightarrow>
          (case mapping_items target h of
             None \<Rightarrow> (Some AttributeError, h)
           | Some acc \<Rightarrow>
               (case p (VReq a) h of
                  Inl e \<Rightarrow> (Some e, h)
                | Inr out \<Rightarrow> run_processors ps a (set_items target (dict_update acc out) h))))"

text \<open>
  Lines 162-163: \<open>if REQUEST_CONTEXT_KEY not in request: request[REQUEST_CONTEXT_KEY] = {}\<close>.
\<close>

definition ensure_request_context :: "addr \<Rightarrow> heap \<Rightarrow> heap" where
  "ensure_request_context a h =
     (if map_of (requests h a) REQUEST_CONTEXT_KEY = None
      then (let (d, hd) = new_dict h
            in hd\<lparr>requests := (requests hd)
                  (a := AList.update REQUEST_CONTEXT_KEY (VDict d) (requests hd a))\<rparr>)
      else h)"

definition context_processors_middleware ::
  "config_view \<Rightarrow> addr \<Rightarrow> (pyval \<Rightarrow> heap \<Rightarrow> (exn + pyval) \<times> heap) \<Rightarrow> heap
     \<Rightarrow> (exn + pyval) \<times> heap" where
  "context_processors_middleware cfg a handler h =
     (let h1 = ensure_request_context a h
      in case cfg a APP_CONTEXT_PROCESSORS_KEY of
           None \<Rightarrow> (Inl (KeyError APP_CONTEXT_PROCESSORS_KEY), h1)
         | Some (AEnv env) \<Rightarrow> (Inl TypeError, h1)
         | Some (AProcessors ps) \<Rightarrow>
             (case run_processors ps a h1 of
                (Some e, h2) \<Rightarrow> (Inl e, h2)
              | (None, h2) \<Rightarrow> handler (VReq a) h2))"

text \<open>\<open>request_processor\<close>: the built-in processor.\<close>

definition request_processor :: processor where
  "request_processor request h = Inr [(''request'', request)]"

section \<open>The request resolution as the specification words it\<close>

text \<open>
  The specification's sentence on the decorator's request: "if the first positional
  argument exposes a \<open>.request\<close> attribute, use that; otherwise use the last positional
  argument".  This definition follows those words, to be compared with \<open>resolve_request\<close>.
\<close>

definition spec_resolve_request :: "pyval list \<Rightarrow> heap \<Rightarrow> exn + pyval" where
  "spec_resolve_request args h =
     (case args of
        [] \<Rightarrow> Inl IndexError
      | a0 # rest \<Rightarrow>
          (case getattr_request a0 h of
             Some r \<Rightarrow> Inr r
           | None \<Rightarrow> Inr (last args)))"

section \<open>An example application\<close>

text \<open>
  One application set up with an asynchronous environment that holds the templates
  \<open>t.html\<close> (it writes the value of \<open>k\<close>) and \<open>e.html\<close> (it writes one accented letter), and
  with the two processors \<open>P1\<close> and \<open>P2\<close>.  The codecs are \<open>utf-8\<close>, which encodes every
  text, and \<open>ascii\<close>, which encodes the texts of seven-bit characters.
  In the heap: request 0 with the accumulated context \<open>{k: 1, a: 0}\<close> (dict 6), the
  handler context \<open>{k: 2, x: 1}\<close> (dict 2), a view 3 on request 0, a handler object 4 that
  keeps an attribute \<open>request\<close> of its own (request 5, of an application without setup), a
  response 7, a request 8 whose store is empty, and a request 11 whose accumulated context
  is the empty dict 12.  Dict 13 is empty too.  New objects start at address 20.
\<close>

definition show_k :: "pydict \<Rightarrow> string" where
  "show_k ctx =
     (case map_of ctx ''k'' of
        Some (VInt n) \<Rightarrow> (if n = 1 then ''1'' else if n = 2 then ''2'' else ''?'')
      | _ \<Rightarrow> [])"

definition example_template :: jinja_template where
  "example_template =
     \<lparr>render = (\<lambda>ctx h. Inr (''sync '' @ show_k ctx)),
      render_async = (\<lambda>ctx h. Inr (show_k ctx))\<rparr>"

definition accent_template :: jinja_template where
  "accent_template =
     \<lparr>render = (\<lambda>ctx h. Inr [CHR 0xE9]),
      render_async = (\<lambda>ctx h. Inr [CHR 0xE9])\<rparr>"

definition example_env :: environment where
  "example_env =
     \<lparr>is_async = True,
      get_template = (\<lambda>n. if n = ''t.html'' then Inr example_template
                         else if n = ''e.html'' then Inr accent_template
                         else Inl (TemplateNotFound n))\<rparr>"

definition P1 :: processor where
  "P1 request h = Inr [(''a'', VInt 1)]"

definition P2 :: processor where
  "P2 request h = Inr [(''a'', VInt 2)]"

definition example_config :: config_view where
  "example_config a =
     (if a = 5 then (\<lambda>k. None)
      else (\<lambda>k. if k = APP_KEY then Some (AEnv example_env)
                else if k = APP_CONTEXT_PROCESSORS_KEY then Some (AProcessors [P1, P2])
                else None))"

definition blank_response :: response where
  "blank_response =
     \<lparr>status = 200, content_type = ''application/octet-stream'', charset = None,
      body_text = None, state = []\<rparr>"

definition example_heap :: heap where
  "example_heap =
     \<lparr>dicts = (\<lambda>a. [])(6 := [(''k'', VInt 1), (''a'', VInt 0)],
                         2 := [(''k'', VInt 2), (''x'', VInt 1)]),
      requests = (\<lambda>a. [])(0 := [(REQUEST_CONTEXT_KEY, VDict 6)],
                            11 := [(REQUEST_CONTEXT_KEY, VDict 12)]),
      responses = (\<lambda>a. blank_response),
      attrs = (\<lambda>a. [])(3 := [(''request'', VReq 0)], 4 := [(''request'', VReq 5)]),
      class_name = (\<lambda>a. ''object'')(3 := ''app.views.Index'', 4 := ''app.handlers.Site''),
      fresh = 20,
      codecs = (\<lambda>n. if n = ''utf-8'' then Some (\<lambda>t. True)
                    else if n = ''ascii'' then Some (list_all (\<lambda>c. \<not> digit7 c))
                    else None),
      warnings = [],
      engine_calls = []\<rparr>"

definition context_handler :: handler where
  "context_handler = \<lparr>is_coroutine = True, call = (\<lambda>args h. (Inr (VDict 2), h))\<rparr>"

definition response_handler :: handler where
  "response_handler = \<lparr>is_coroutine = True, call = (\<lambda>args h. (Inr (VResp 7), h))\<rparr>"

definition next_handler :: "pyval \<Rightarrow> heap \<Rightarrow> (exn + pyval) \<times> heap" where
  "next_handler request h = (Inr (VResp 7), h)"

section \<open>Properties\<close>

lemma dict_update_Nil [simp]: "dict_update d [] = d"
  by (simp add: dict_update_def)

lemma dict_update_Cons: "dict_update d ((k, v) # other) = dict_update (AList.update k v d) other"
  by (simp add: dict_update_def)

lemma update_fresh_key: "k \<notin> fst ` set d \<Longrightarrow> AList.update k v d = d @ [(k, v)]"
  by (induction d) auto

lemma dict_update_append: "distinct (map fst (d @ other)) \<Longrightarrow> dict_update d other = d @ other"
proof (induction other arbitrary: d)
  case Nil
  then show ?case by simp
next
  case (Cons kv other)
  obtain k v where kv: "kv = (k, v)" by (cases kv)
  from Cons.prems kv have fresh: "k \<notin> fst ` set d" by auto
  from Cons.prems kv have "distinct (map fst ((d @ [(k, v)]) @ other))" by auto
  from Cons.IH [OF this] show ?case
    by (simp add: kv dict_update_Cons update_fresh_key [OF fresh])
qed

lemma dict_update_empty: "distinct (map fst other) \<Longrightarrow> dict_update [] other = other"
  using dict_update_append [of "[]" other] by simp

lemma map_of_dict_update: "map_of (dict_update d other) = map_of d ++ map_of (rev other)"
proof (induction other arbitrary: d)
  case Nil
  then show ?case by simp
next
  case (Cons kv other)
  obtain k v where kv: "kv = (k, v)" by (cases kv)
  show ?case
    by (simp add: kv dict_update_Cons Cons.IH update_conv' map_add_upd_left fun_eq_iff map_add_def split: option.splits)
qed

lemma map_of_dict_update_distinct:
  "distinct (map fst other) \<Longrightarrow> map_of (dict_update d other) = map_of d ++ map_of other"
proof -
  assume d: "distinct (map fst other)"
  then have "distinct (map fst (rev other))" by (metis distinct_rev rev_map)
  with d have "map_of (rev other) = map_of other" by (simp add: map_of_inject_set)
  then show ?thesis by (simp add: map_of_dict_update)
qed

lemma log_call_fields [simp]:
  "dicts (log_call c h) = dicts h"
  "requests (log_call c h) = requests h"
  "responses (log_call c h) = responses h"
  "attrs (log_call c h) = attrs h"
  "class_name (log_call c h) = class_name h"
  "fresh (log_call c h) = fresh h"
  "codecs (log_call c h) = codecs h"
  "warnings (log_call c h) = warnings h"
  "engine_calls (log_call c h) = engine_calls h @ [c]"
  by (simp_all add: log_call_def)

lemma mapping_items_log_call [simp]: "mapping_items v (log_call c h) = mapping_items v h"
  by (cases v) simp_all

lemma truthy_log_call [simp]: "truthy v (log_call c h) = truthy v h"
  by (cases v) simp_all

lemma type_repr_log_call [simp]: "type_repr v (log_call c h) = type_repr v h"
  by (cases v) simp_all

lemma pair_of_log_call [simp]: "pair_of v (log_call c h) = pair_of v h"
  by (cases v) simp_all

lemma dict_of_pairs_log_call [simp]: "dict_of_pairs xs d (log_call c h) = dict_of_pairs xs d h"
  by (induction xs arbitrary: d) (simp_all split: sum.splits prod.splits pyval.splits)

lemma dict_call_log_call [simp]: "dict_call v (log_call c h) = dict_call v h"
  by (cases v) simp_all

lemma dict_call_examples:
  "dict_call (VList [VList [VStr ''k'', VInt 1], VStr ''ab'']) h
     = Inr [(''k'', VInt 1), (''a'', VStr ''b'')]"
  "dict_call (VStr ''ab'') h = Inl ValueError"
  "dict_call (VInt 5) h = Inl TypeError"
  "dict_call (VList [VInt 5]) h = Inl TypeError"
  "dict_call (VList [VList [VStr ''k'']]) h = Inl ValueError"
  "dict_call (VList [VList [VInt 1, VInt 2]]) h = Inl TypeError"
  "dict_call (VDict d) h = Inr (dicts h d)"
  by simp_all

lemma merge_request_context_log_call [simp]:
  "merge_request_context a items (log_call c h) = merge_request_context a items h"
  by (simp add: merge_request_context_def split: option.splits)

lemma merge_request_context_dict:
  assumes "map_of (requests h a) REQUEST_CONTEXT_KEY = Some (VDict d)"
    and "distinct (map fst items)"
  shows "merge_request_context a items h = Inr (dict_update (dicts h d) items)"
  using assms by (simp add: merge_request_context_def dict_update_empty)

text \<open>
  C1.  With an environment configured under the key, a template that resolves and a
  map-like handler context (its keys distinct, as a mapping's are), \<open>render_string\<close> returns exactly what the engine's render call
  returns for the effective context: \<open>render_async\<close> when the environment is async-capable,
  \<open>render\<close> otherwise, and that one call is the only render call made.  The effective
  context is the accumulated context updated with the handler's items when the request
  holds an accumulated context (for an empty one this is the handler's context itself), and
  the handler's context alone when the request holds none.  Every key of the handler keeps
  the handler's value; the other keys have the accumulated value.
\<close>

theorem render_string_engine_text:
  assumes env: "cfg a app_key = Some (AEnv env)"
    and tmpl: "get_template env template_name = Inr tmpl"
    and ctx: "mapping_items context h = Some items"
    and keys: "distinct (map fst items)"
    and acc: "map_of (requests h a) REQUEST_CONTEXT_KEY = Some (VDict d)
                \<and> effective = dict_update (dicts h d) items
              \<or> map_of (requests h a) REQUEST_CONTEXT_KEY = None \<and> effective = items"
  shows "fst (render_string cfg template_name (VReq a) context app_key h) =
           (if is_async env
            then render_async tmpl effective (log_call (GetTemplate template_name) h)
            else render tmpl effective (log_call (GetTemplate template_name) h))
       \<and> snd (render_string cfg template_name (VReq a) context app_key h) =
           log_call (if is_async env then RenderAsync template_name effective
                     else Render template_name effective)
             (log_call (GetTemplate template_name) h)
       \<and> (\<forall>k v. map_of items k = Some v \<longrightarrow> map_of effective k = Some v)
       \<and> (map_of (requests h a) REQUEST_CONTEXT_KEY = Some (VDict d) \<longrightarrow>
            (\<forall>k. map_of items k = None \<longrightarrow> map_of effective k = map_of (dicts h d) k))"
proof -
  have merged: "merge_request_context a items h = Inr effective"
    using acc
  proof
    assume "map_of (requests h a) REQUEST_CONTEXT_KEY = Some (VDict d)
              \<and> effective = dict_update (dicts h d) items"
    then show ?thesis using keys by (simp add: merge_request_context_dict)
  next
    assume "map_of (requests h a) REQUEST_CONTEXT_KEY = None \<and> effective = items"
    then show ?thesis by (simp add: merge_request_context_def)
  qed
  have text_eq: "fst (render_string cfg template_name (VReq a) context app_key h) =
           (if is_async env
            then render_async tmpl effective (log_call (GetTemplate template_name) h)
            else render tmpl effective (log_call (GetTemplate template_name) h))"
    using merged env tmpl ctx by (simp add: render_string_def Let_def)
  have heap_eq: "snd (render_string cfg template_name (VReq a) context app_key h) =
           log_call (if is_async env then RenderAsync template_name effective
                     else Render template_name effective)
             (log_call (GetTemplate template_name) h)"
    using merged env tmpl ctx by (simp add: render_string_def Let_def)
  have wins: "\<forall>k v. map_of items k = Some v \<longrightarrow> map_of effective k = Some v"
    using acc keys by (auto simp: map_of_dict_update_distinct)
  have others: "map_of (requests h a) REQUEST_CONTEXT_KEY = Some (VDict d) \<longrightarrow>
            (\<forall>k. map_of items k = None \<longrightarrow> map_of effective k = map_of (dicts h d) k)"
    using acc keys by (auto simp: map_of_dict_update_distinct map_add_def)
  from text_eq heap_eq wins others show ?thesis by blast
qed

text \<open>
  C6.  When nothing is stored under \<open>app_key\<close> in the request's \<open>config_dict\<close>,
  \<open>render_string\<close> raises \<open>HTTPInternalServerError\<close>; its reason and its body text are the
  same message, which names the key.  No engine call is made.
\<close>

theorem render_string_not_configured:
  assumes "cfg a app_key = None"
  shows "\<exists>msg. render_string cfg template_name (VReq a) context app_key h =
                 (Inl (HTTPInternalServerError msg msg), h)
             \<and> msg = ''Template engine is not initialized, call aiohttp_jinja2.setup(..., app_key=''
                       @ app_key @ '') first''"
  using assms by (simp add: render_string_def not_initialized_text_def Let_def)

text \<open>
  C7.  With an environment configured, when the engine does not find the template,
  \<open>render_string\<close> raises \<open>HTTPInternalServerError\<close>; its reason and its body text are the
  same message, which names the template.
\<close>

theorem render_string_template_not_found:
  assumes "cfg a app_key = Some (AEnv env)"
    and "get_template env template_name = Inl (TemplateNotFound n)"
  shows "\<exists>msg. render_string cfg template_name (VReq a) context app_key h =
                 (Inl (HTTPInternalServerError msg msg), log_call (GetTemplate template_name) h)
             \<and> msg = ''Template '' @ [CHR 0x27] @ template_name @ [CHR 0x27] @ '' not found''"
  using assms by (simp add: render_string_def not_found_text_def quoted_def Let_def)

text \<open>
  C8.  With an environment configured and a template that resolves, when the context is
  not a mapping, \<open>render_string\<close> raises \<open>HTTPInternalServerError\<close>; its reason and its
  body text are the same message, which ends with the type of the context as Python
  writes it: \<open>NoneType\<close>, \<open>int\<close>, \<open>str\<close> or \<open>list\<close> for the values of those types, the
  qualified name of its class for an instance.
\<close>

theorem render_string_invalid_context:
  assumes "cfg a app_key = Some (AEnv env)"
    and "get_template env template_name = Inr tmpl"
    and "mapping_items context h = None"
  shows "\<exists>msg tn. render_string cfg template_name (VReq a) context app_key h =
                 (Inl (HTTPInternalServerError msg msg), log_call (GetTemplate template_name) h)
             \<and> msg = ''context should be mapping, not <class '' @ [CHR 0x27] @ tn @ [CHR 0x27] @ ''>''
             \<and> (context = VNone \<longrightarrow> tn = ''NoneType'')
             \<and> (\<forall>n. context = VInt n \<longrightarrow> tn = ''int'')
             \<and> (\<forall>s. context = VStr s \<longrightarrow> tn = ''str'')
             \<and> (\<forall>xs. context = VList xs \<longrightarrow> tn = ''list'')
             \<and> (\<forall>v. context = VView v \<longrightarrow> tn = class_name h v)
             \<and> (\<forall>v. context = VObj v \<longrightarrow> tn = class_name h v)"
proof (cases "context")
  case VNone
  with assms show ?thesis
    by (simp add: render_string_def not_mapping_text_def quoted_def Let_def)
next
  case (VInt n)
  with assms show ?thesis
    by (simp add: render_string_def not_mapping_text_def quoted_def Let_def)
next
  case (VStr s)
  with assms show ?thesis
    by (simp add: render_string_def not_mapping_text_def quoted_def Let_def)
next
  case (VList xs)
  with assms show ?thesis
    by (simp add: render_string_def not_mapping_text_def quoted_def Let_def)
next
  case (VView v)
  with assms show ?thesis
    by (simp add: render_string_def not_mapping_text_def quoted_def Let_def)
next
  case (VObj v)
  with assms show ?thesis
    by (simp add: render_string_def not_mapping_text_def quoted_def Let_def)
qed (use assms in simp_all)

lemma render_string_responses [simp]:
  "responses (snd (render_string cfg template_name request context app_key h)) = responses h"
  by (simp add: render_string_def Let_def
        split: pyval.split option.split appval.split sum.split exn.split)

lemma render_string_codecs [simp]:
  "codecs (snd (render_string cfg template_name request context app_key h)) = codecs h"
  by (simp add: render_string_def Let_def
        split: pyval.split option.split appval.split sum.split exn.split)

lemma none_as_empty_responses [simp]: "responses (snd (none_as_empty context h)) = responses h"
  by (simp add: none_as_empty_def new_dict_def)

lemma set_content_type_fields [simp]:
  "codecs (set_content_type r v h) = codecs h"
  "status (responses (set_content_type r v h) r') = status (responses h r')"
  "content_type (responses (set_content_type r v h) r) = v"
  by (simp_all add: set_content_type_def)

lemma set_charset_status [simp]:
  "status (responses (snd (set_charset r v h)) r') = status (responses h r')"
  by (simp add: set_charset_def)

lemma set_text_status [simp]:
  "status (responses (snd (set_text r v h)) r') = status (responses h r')"
  by (simp add: set_text_def set_content_type_def Let_def split: option.split)


lemma render_template_success:
  assumes "render_template cfg template_name request context app_key encoding st h = (Inr v, h')"
  shows "v = VResp (fresh h) \<and> status (responses h' (fresh h)) = st"
proof -
  obtain context' h2 where none: "none_as_empty context (snd (new_response st h)) = (context', h2)"
    by (cases "none_as_empty context (snd (new_response st h))")
  obtain res h3 where rs: "render_string cfg template_name request context' app_key h2 = (res, h3)"
    by (cases "render_string cfg template_name request context' app_key h2")
  have "responses h3 = responses h2"
    using render_string_responses [of cfg template_name request context' app_key h2] rs by simp
  moreover have "responses h2 = responses (snd (new_response st h))"
    using none_as_empty_responses [of "context" "snd (new_response st h)"] none by simp
  ultimately have st3: "status (responses h3 (fresh h)) = st"
    by (simp add: new_response_def)
  from assms none rs obtain t where res: "res = Inr t"
    by (cases res) (auto simp: render_template_def new_response_def)
  let ?h4 = "set_content_type (fresh h) ''text/html'' h3"
  obtain e5 h5 where c5: "set_charset (fresh h) encoding ?h4 = (e5, h5)"
    by (cases "set_charset (fresh h) encoding ?h4")
  obtain e6 h6 where c6: "set_text (fresh h) t h5 = (e6, h6)"
    by (cases "set_text (fresh h) t h5")
  have final: "v = VResp (fresh h) \<and> h' = h6"
    using assms none rs res c5 c6
    by (auto simp: render_template_def new_response_def split: option.splits)
  have "status (responses h6 (fresh h)) = status (responses h5 (fresh h))"
    using set_text_status [of "fresh h" t h5 "fresh h"] c6 by simp
  also have "\<dots> = status (responses ?h4 (fresh h))"
    using set_charset_status [of "fresh h" encoding ?h4 "fresh h"] c5 by simp
  also have "\<dots> = st"
    using st3 by simp
  finally show ?thesis using final by simp
qed

text \<open>
  C3.  When the awaited handler returns a response object, the wrapped handler returns
  that same object, and the heap is the one the handler left: nothing was changed and no
  engine call was made.
\<close>

theorem template_passthrough:
  assumes "call_handler func args h = (Inr response, h1)"
    and "is_stream_response response"
  shows "template cfg template_name app_key encoding st func args h = (Inr response, h1)
       \<and> engine_calls (snd (template cfg template_name app_key encoding st func args h))
           = engine_calls h1"
  using assms by (simp add: template_def)

text \<open>
  C4.  When the awaited handler returns a context and \<open>render_template\<close> succeeds (it
  is called with the default status, which the response then has), the wrapped handler
  returns that response with its status set to the decorator's \<open>status\<close>.
\<close>

theorem template_status_override:
  assumes "call_handler func args h = (Inr context, h1)"
    and "\<not> is_stream_response context"
    and "resolve_request args h1 = Inr request"
    and "render_template cfg template_name request context app_key encoding DEFAULT_STATUS h1
           = (Inr response, h2)"
  shows "\<exists>r h'. response = VResp r
           \<and> status (responses h2 r) = DEFAULT_STATUS
           \<and> template cfg template_name app_key encoding st func args h = (Inr (VResp r), h')
           \<and> status (responses h' r) = st"
proof -
  from render_template_success [OF assms(4)]
  have "response = VResp (fresh h1)" and "status (responses h2 (fresh h1)) = DEFAULT_STATUS"
    by simp_all
  then show ?thesis
    using assms by (simp add: template_def)
qed

text \<open>
  C9, as amended.  For a handler that returns a context: if the first positional
  argument is an instance of \<open>AbstractView\<close>, its \<open>request\<close> attribute is the request handed to
  \<open>render_template\<close>; if it is not, the last positional argument is.
\<close>

theorem template_request_resolution:
  assumes "call_handler func args h = (Inr context, h1)"
    and "\<not> is_stream_response context"
    and "args = a0 # rest"
    and "is_abstract_view a0 \<and> getattr_request a0 h1 = Some request
         \<or> \<not> is_abstract_view a0 \<and> request = last args"
  shows "resolve_request args h1 = Inr request
       \<and> template cfg template_name app_key encoding st func args h =
           (case render_template cfg template_name request context app_key encoding
                   DEFAULT_STATUS h1 of
              (Inl e, h2) \<Rightarrow> (Inl e, h2)
            | (Inr response, h2) \<Rightarrow> set_status response st h2)"
proof -
  have "resolve_request args h1 = Inr request"
    using assms(3,4) by (auto simp: resolve_request_def)
  then show ?thesis
    using assms(1,2) by (simp add: template_def)
qed

text \<open>
  C9, as stated, fails.  The first positional argument is a handler object that is not
  an \<open>AbstractView\<close> and has an attribute \<open>request\<close> (request 5); the last positional argument
  is request 0.  The decorator uses request 0, the specification's words give request 5.
\<close>

theorem request_attribute_counterexample:
  "getattr_request (VObj 4) example_heap = Some (VReq 5)
   \<and> resolve_request [VObj 4, VReq 0] example_heap = Inr (VReq 0)
   \<and> spec_resolve_request [VObj 4, VReq 0] example_heap = Inr (VReq 5)
   \<and> resolve_request [VObj 4, VReq 0] example_heap
       \<noteq> spec_resolve_request [VObj 4, VReq 0] example_heap"
  by (simp add: resolve_request_def spec_resolve_request_def example_heap_def)

lemma example_env_lookup [simp]:
  "example_config 0 APP_KEY = Some (AEnv example_env)"
  "example_config 8 APP_KEY = Some (AEnv example_env)"
  "example_config 11 APP_KEY = Some (AEnv example_env)"
  "example_config 5 APP_KEY = None"
  "example_config 0 APP_CONTEXT_PROCESSORS_KEY = Some (AProcessors [P1, P2])"
  "example_config 8 APP_CONTEXT_PROCESSORS_KEY = Some (AProcessors [P1, P2])"
  by (simp_all add: example_config_def APP_KEY_def APP_CONTEXT_PROCESSORS_KEY_def)

lemma example_env_templates [simp]:
  "is_async example_env"
  "get_template example_env ''t.html'' = Inr example_template"
  "get_template example_env ''e.html'' = Inr accent_template"
  "get_template example_env ''missing.html'' = Inl (TemplateNotFound ''missing.html'')"
  by (simp_all add: example_env_def)

lemma example_heap_fields [simp]:
  "dicts example_heap 6 = [(''k'', VInt 1), (''a'', VInt 0)]"
  "dicts example_heap 2 = [(''k'', VInt 2), (''x'', VInt 1)]"
  "requests example_heap 0 = [(REQUEST_CONTEXT_KEY, VDict 6)]"
  "requests example_heap 8 = []"
  "requests example_heap 11 = [(REQUEST_CONTEXT_KEY, VDict 12)]"
  "dicts example_heap 12 = []"
  "dicts example_heap 13 = []"
  "fresh example_heap = 20"
  "engine_calls example_heap = []"
  by (simp_all add: example_heap_def)

text \<open>
  In the example: the handler's \<open>k = 2\<close> wins over the accumulated \<open>k = 1\<close>, and the one
  render call is \<open>render_async\<close> on the merged context; a request without accumulated
  context and a request whose accumulated context is empty render the handler's context; an
  empty handler context renders the accumulated one.
\<close>

theorem render_string_engine_text_witness:
  "fst (render_string example_config ''t.html'' (VReq 0) (VDict 2) APP_KEY example_heap) = Inr ''2''
   \<and> engine_calls (snd (render_string example_config ''t.html'' (VReq 0) (VDict 2) APP_KEY
          example_heap))
       = [GetTemplate ''t.html'',
          RenderAsync ''t.html'' [(''k'', VInt 2), (''a'', VInt 0), (''x'', VInt 1)]]
   \<and> fst (render_string example_config ''t.html'' (VReq 8) (VDict 2) APP_KEY example_heap) = Inr ''2''
   \<and> snd (render_string example_config ''t.html'' (VReq 11) (VDict 2) APP_KEY example_heap)
       = log_call (RenderAsync ''t.html'' [(''k'', VInt 2), (''x'', VInt 1)])
           (log_call (GetTemplate ''t.html'') example_heap)
   \<and> fst (render_string example_config ''t.html'' (VReq 0) (VDict 13) APP_KEY example_heap) = Inr ''1''"
proof -
  have a: "fst (render_string example_config ''t.html'' (VReq 0) (VDict 2) APP_KEY example_heap) = Inr ''2''
     \<and> engine_calls (snd (render_string example_config ''t.html'' (VReq 0) (VDict 2) APP_KEY
          example_heap))
       = [GetTemplate ''t.html'',
          RenderAsync ''t.html'' [(''k'', VInt 2), (''a'', VInt 0), (''x'', VInt 1)]]"
    using render_string_engine_text [of example_config 0 APP_KEY example_env "''t.html''"
        example_template "VDict 2" example_heap "[(''k'', VInt 2), (''x'', VInt 1)]" 6
        "[(''k'', VInt 2), (''a'', VInt 0), (''x'', VInt 1)]"]
    by (simp add: dict_update_def example_template_def show_k_def)
  have b: "fst (render_string example_config ''t.html'' (VReq 8) (VDict 2) APP_KEY example_heap) = Inr ''2''"
    using render_string_engine_text [of example_config 8 APP_KEY example_env "''t.html''"
        example_template "VDict 2" example_heap "[(''k'', VInt 2), (''x'', VInt 1)]" 6
        "[(''k'', VInt 2), (''x'', VInt 1)]"]
    by (simp add: example_template_def show_k_def)
  have c: "snd (render_string example_config ''t.html'' (VReq 11) (VDict 2) APP_KEY example_heap)
       = log_call (RenderAsync ''t.html'' [(''k'', VInt 2), (''x'', VInt 1)])
           (log_call (GetTemplate ''t.html'') example_heap)"
    using render_string_engine_text [of example_config 11 APP_KEY example_env "''t.html''"
        example_template "VDict 2" example_heap "[(''k'', VInt 2), (''x'', VInt 1)]" 12
        "[(''k'', VInt 2), (''x'', VInt 1)]"]
    by (simp add: dict_update_def)
  have d: "fst (render_string example_config ''t.html'' (VReq 0) (VDict 13) APP_KEY example_heap) = Inr ''1''"
    using render_string_engine_text [of example_config 0 APP_KEY example_env "''t.html''"
        example_template "VDict 13" example_heap "[]" 6
        "[(''k'', VInt 1), (''a'', VInt 0)]"]
    by (simp add: example_template_def show_k_def)
  from a b c d show ?thesis by simp
qed

text \<open>
  In the example: request 5 belongs to an application without setup.
\<close>

theorem render_string_not_configured_witness:
  "render_string example_config ''t.html'' (VReq 5) (VDict 2) APP_KEY example_heap =
     (Inl (HTTPInternalServerError
        ''Template engine is not initialized, call aiohttp_jinja2.setup(..., app_key=aiohttp_jinja2_environment) first''
        ''Template engine is not initialized, call aiohttp_jinja2.setup(..., app_key=aiohttp_jinja2_environment) first''),
      example_heap)"
  using render_string_not_configured [of example_config 5 APP_KEY "''t.html''" "VDict 2" example_heap]
  by (simp add: APP_KEY_def example_config_def)

text \<open>
  In the example: the environment has no template \<open>missing.html\<close>; the lookup fails before the context is looked at.
\<close>

theorem render_string_template_not_found_witness:
  "fst (render_string example_config ''missing.html'' (VReq 0) (VList []) APP_KEY example_heap) =
     Inl (HTTPInternalServerError
        (''Template '' @ [CHR 0x27] @ ''missing.html'' @ [CHR 0x27] @ '' not found'')
        (''Template '' @ [CHR 0x27] @ ''missing.html'' @ [CHR 0x27] @ '' not found''))"
  using render_string_template_not_found [of example_config 0 APP_KEY example_env "''missing.html''"
      "''missing.html''" "VList []" example_heap]
  by auto

text \<open>
  In the example: a list, \<open>None\<close>, an integer, a string and the handler object 4 as context.
\<close>

theorem render_string_invalid_context_witness:
  "fst (render_string example_config ''t.html'' (VReq 0) (VList [VInt 1, VInt 2]) APP_KEY example_heap) =
     Inl (HTTPInternalServerError
        (''context should be mapping, not <class '' @ [CHR 0x27] @ ''list'' @ [CHR 0x27] @ ''>'')
        (''context should be mapping, not <class '' @ [CHR 0x27] @ ''list'' @ [CHR 0x27] @ ''>''))
   \<and> fst (render_string example_config ''t.html'' (VReq 0) VNone APP_KEY example_heap) =
     Inl (HTTPInternalServerError
        (''context should be mapping, not <class '' @ [CHR 0x27] @ ''NoneType'' @ [CHR 0x27] @ ''>'')
        (''context should be mapping, not <class '' @ [CHR 0x27] @ ''NoneType'' @ [CHR 0x27] @ ''>''))
   \<and> fst (render_string example_config ''t.html'' (VReq 0) (VInt 7) APP_KEY example_heap) =
     Inl (HTTPInternalServerError
        (''context should be mapping, not <class '' @ [CHR 0x27] @ ''int'' @ [CHR 0x27] @ ''>'')
        (''context should be mapping, not <class '' @ [CHR 0x27] @ ''int'' @ [CHR 0x27] @ ''>''))
   \<and> fst (render_string example_config ''t.html'' (VReq 0) (VStr ''k=2'') APP_KEY example_heap) =
     Inl (HTTPInternalServerError
        (''context should be mapping, not <class '' @ [CHR 0x27] @ ''str'' @ [CHR 0x27] @ ''>'')
        (''context should be mapping, not <class '' @ [CHR 0x27] @ ''str'' @ [CHR 0x27] @ ''>''))
   \<and> fst (render_string example_config ''t.html'' (VReq 0) (VObj 4) APP_KEY example_heap) =
     Inl (HTTPInternalServerError
        (''context should be mapping, not <class '' @ [CHR 0x27] @ ''app.handlers.Site'' @ [CHR 0x27] @ ''>'')
        (''context should be mapping, not <class '' @ [CHR 0x27] @ ''app.handlers.Site'' @ [CHR 0x27] @ ''>''))"
proof -
  have cls: "class_name example_heap 4 = ''app.handlers.Site''"
    by (simp add: example_heap_def)
  from render_string_invalid_context [of example_config 0 APP_KEY example_env "''t.html''"
      example_template "VList [VInt 1, VInt 2]" example_heap]
    render_string_invalid_context [of example_config 0 APP_KEY example_env "''t.html''"
      example_template VNone example_heap]
    render_string_invalid_context [of example_config 0 APP_KEY example_env "''t.html''"
      example_template "VInt 7" example_heap]
    render_string_invalid_context [of example_config 0 APP_KEY example_env "''t.html''"
      example_template "VStr ''k=2''" example_heap]
    render_string_invalid_context [of example_config 0 APP_KEY example_env "''t.html''"
      example_template "VObj 4" example_heap]
  show ?thesis
    by (auto simp: cls)
qed

text \<open>
  In the example: the handler returns response 7.
\<close>

theorem template_passthrough_witness:
  "template example_config ''t.html'' APP_KEY DEFAULT_ENCODING 201 response_handler [VReq 0]
     example_heap = (Inr (VResp 7), example_heap)
   \<and> engine_calls (snd (template example_config ''t.html'' APP_KEY DEFAULT_ENCODING 201
        response_handler [VReq 0] example_heap)) = []"
  using template_passthrough [of response_handler "[VReq 0]" example_heap "VResp 7" example_heap
      example_config "''t.html''" APP_KEY DEFAULT_ENCODING 201]
  by (simp add: call_handler_def response_handler_def)





lemma example_render_context:
  "render_template example_config ''t.html'' (VReq 0) (VDict 2) APP_KEY DEFAULT_ENCODING
      DEFAULT_STATUS example_heap
   = (Inr (VResp 20), snd (render_template example_config ''t.html'' (VReq 0) (VDict 2) APP_KEY
        DEFAULT_ENCODING DEFAULT_STATUS example_heap))"
  by (simp add: render_template_def render_string_def merge_request_context_def
        none_as_empty_def new_response_def set_content_type_def set_charset_def set_text_def
        str_lower_def lower_char_def DEFAULT_ENCODING_def example_heap_def
        example_template_def show_k_def Let_def)

text \<open>
  In the example: a decorator with status 201.
\<close>

theorem template_status_override_witness:
  "fst (template example_config ''t.html'' APP_KEY DEFAULT_ENCODING 201 context_handler
          [VReq 0] example_heap) = Inr (VResp 20)
   \<and> status (responses (snd (template example_config ''t.html'' APP_KEY DEFAULT_ENCODING 201
          context_handler [VReq 0] example_heap)) 20) = 201"
proof -
  have 1: "call_handler context_handler [VReq 0] example_heap = (Inr (VDict 2), example_heap)"
    by (simp add: call_handler_def context_handler_def)
  have 2: "\<not> is_stream_response (VDict 2)" by simp
  have 3: "resolve_request [VReq 0] example_heap = Inr (VReq 0)"
    by (simp add: resolve_request_def)
  from template_status_override [OF 1 2 3 example_render_context, of 201]
  show ?thesis by auto
qed

text \<open>
  In the example: a view method called with the view 3, and a method of the handler object 4 called with request 0.
\<close>

theorem template_request_resolution_witness:
  "resolve_request [VView 3] example_heap = Inr (VReq 0)
   \<and> fst (template example_config ''t.html'' APP_KEY DEFAULT_ENCODING 201 context_handler
          [VView 3] example_heap) = Inr (VResp 20)
   \<and> resolve_request [VObj 4, VReq 0] example_heap = Inr (VReq 0)
   \<and> fst (template example_config ''t.html'' APP_KEY DEFAULT_ENCODING 201 context_handler
          [VObj 4, VReq 0] example_heap) = Inr (VResp 20)"
proof -
  have 1: "call_handler context_handler [VView 3] example_heap = (Inr (VDict 2), example_heap)"
    by (simp add: call_handler_def context_handler_def)
  have vb: "call_handler context_handler [VObj 4, VReq 0] example_heap = (Inr (VDict 2), example_heap)"
    by (simp add: call_handler_def context_handler_def)
  have 2: "\<not> is_stream_response (VDict 2)" by simp
  have 3: "is_abstract_view (VView 3) \<and> getattr_request (VView 3) example_heap = Some (VReq 0)
           \<or> \<not> is_abstract_view (VView 3) \<and> VReq 0 = last [VView 3]"
    by (simp add: example_heap_def)
  have rb: "is_abstract_view (VObj 4) \<and> getattr_request (VObj 4) example_heap = Some (VReq 0)
           \<or> \<not> is_abstract_view (VObj 4) \<and> VReq 0 = last [VObj 4, VReq 0]"
    by simp
  define h2 where "h2 = snd (render_template example_config ''t.html'' (VReq 0) (VDict 2)
      APP_KEY DEFAULT_ENCODING DEFAULT_STATUS example_heap)"
  have rt: "render_template example_config ''t.html'' (VReq 0) (VDict 2) APP_KEY
      DEFAULT_ENCODING DEFAULT_STATUS example_heap = (Inr (VResp 20), h2)"
    unfolding h2_def by (rule example_render_context)
  from template_request_resolution [OF 1 2 refl 3, of example_config "''t.html''" APP_KEY
      DEFAULT_ENCODING 201]
    template_request_resolution [OF vb 2 refl rb, of example_config "''t.html''" APP_KEY
      DEFAULT_ENCODING 201]
  show ?thesis
    by (simp add: rt)
qed

lemma run_processors_dict:
  assumes "map_of (requests h a) REQUEST_CONTEXT_KEY = Some (VDict d)"
    and "length outs = length ps"
    and "\<forall>i<length ps.
           (ps ! i) (VReq a)
             (h\<lparr>dicts := (dicts h)(d := foldl dict_update (dicts h d) (take i outs))\<rparr>)
           = Inr (outs ! i)"
  shows "run_processors ps a h =
           (None, h\<lparr>dicts := (dicts h)(d := foldl dict_update (dicts h d) outs)\<rparr>)"
  using assms
proof (induction ps arbitrary: h outs)
  case Nil
  then show ?case by simp
next
  case (Cons p ps)
  from Cons.prems(2) obtain out outs' where outs: "outs = out # outs'"
    by (cases outs) auto
  let ?h' = "h\<lparr>dicts := (dicts h)(d := dict_update (dicts h d) out)\<rparr>"
  from Cons.prems(3) have "((p # ps) ! 0) (VReq a)
      (h\<lparr>dicts := (dicts h)(d := foldl dict_update (dicts h d) (take 0 outs))\<rparr>) = Inr (outs ! 0)"
    by blast
  then have first: "p (VReq a) h = Inr out"
    by (simp add: outs)
  have entry: "map_of (requests ?h' a) REQUEST_CONTEXT_KEY = Some (VDict d)"
    using Cons.prems(1) by simp
  have len: "length outs' = length ps"
    using Cons.prems(2) outs by simp
  have rest: "\<forall>i<length ps.
           (ps ! i) (VReq a)
             (?h'\<lparr>dicts := (dicts ?h')(d := foldl dict_update (dicts ?h' d) (take i outs'))\<rparr>)
           = Inr (outs' ! i)"
  proof (intro allI impI)
    fix i assume "i < length ps"
    then have "Suc i < length (p # ps)" by simp
    with Cons.prems(3) have "((p # ps) ! Suc i) (VReq a)
      (h\<lparr>dicts := (dicts h)(d := foldl dict_update (dicts h d) (take (Suc i) outs))\<rparr>)
        = Inr (outs ! Suc i)"
      by blast
    then show "(ps ! i) (VReq a)
             (?h'\<lparr>dicts := (dicts ?h')(d := foldl dict_update (dicts ?h' d) (take i outs'))\<rparr>)
           = Inr (outs' ! i)"
      by (simp add: outs)
  qed
  from Cons.IH [OF entry len rest]
  show ?case
    using Cons.prems(1) first by (simp add: outs cong: if_cong)
qed

lemma map_of_dict_update_other:
  "k \<notin> fst ` set other \<Longrightarrow> map_of (dict_update d other) k = map_of d k"
proof -
  assume "k \<notin> fst ` set other"
  then have "k \<notin> fst ` set (rev other)" by simp
  then have "map_of (rev other) k = None" by (simp add: map_of_eq_None_iff)
  then show ?thesis by (simp add: map_of_dict_update map_add_def)
qed

lemma map_of_foldl_dict_update_other:
  "\<forall>out\<in>set outs. k \<notin> fst ` set out \<Longrightarrow>
     map_of (foldl dict_update init outs) k = map_of init k"
  by (induction outs arbitrary: init) (simp_all add: map_of_dict_update_other)

lemma map_of_foldl_dict_update_last:
  assumes "i < length outs"
    and "map_of (outs ! i) k = Some v"
    and "distinct (map fst (outs ! i))"
    and "\<forall>j. i < j \<and> j < length outs \<longrightarrow> k \<notin> fst ` set (outs ! j)"
  shows "map_of (foldl dict_update init outs) k = Some v"
proof -
  have split: "outs = take i outs @ outs ! i # drop (Suc i) outs"
    using assms(1) by (rule id_take_nth_drop)
  have later: "\<forall>out\<in>set (drop (Suc i) outs). k \<notin> fst ` set out"
  proof
    fix out assume "out \<in> set (drop (Suc i) outs)"
    then obtain n where n: "n < length (drop (Suc i) outs)" "out = drop (Suc i) outs ! n"
      by (auto simp: in_set_conv_nth)
    then have "out = outs ! (Suc i + n)" "Suc i + n < length outs" by auto
    with assms(4) show "k \<notin> fst ` set out" by simp
  qed
  have "foldl dict_update init outs =
          foldl dict_update (dict_update (foldl dict_update init (take i outs)) (outs ! i))
            (drop (Suc i) outs)"
    by (subst split) simp
  then have "map_of (foldl dict_update init outs) k =
          map_of (dict_update (foldl dict_update init (take i outs)) (outs ! i)) k"
    using later by (simp add: map_of_foldl_dict_update_other)
  also have "\<dots> = Some v"
    using assms(2,3) by (simp add: map_of_dict_update_distinct)
  finally show ?thesis .
qed

lemma ensure_request_context_absent:
  assumes "map_of (requests h a) REQUEST_CONTEXT_KEY = None"
  shows "map_of (requests (ensure_request_context a h) a) REQUEST_CONTEXT_KEY = Some (VDict (fresh h))"
    and "dicts (ensure_request_context a h) (fresh h) = []"
  using assms by (simp_all add: ensure_request_context_def new_dict_def update_conv')

lemma ensure_request_context_present:
  "map_of (requests h a) REQUEST_CONTEXT_KEY = Some v \<Longrightarrow> ensure_request_context a h = h"
  by (simp add: ensure_request_context_def)

text \<open>
  C2.  Let the processors \<open>ps\<close> be registered, let \<open>d\<close> be the request's accumulated
  context after lines 162-163 (a new empty dict when the request had none), and let
  \<open>outs ! i\<close> be what processor \<open>i\<close> returns when it is called after the returns of the
  processors before it have been merged.  Then the middleware calls the next handler on the
  heap in which \<open>d\<close> holds the left-to-right fold of \<open>update\<close> over \<open>outs\<close>; for every
  key, the value of the last processor that returns it is the accumulated one.
\<close>

theorem middleware_accumulates_in_order:
  assumes procs: "cfg a APP_CONTEXT_PROCESSORS_KEY = Some (AProcessors ps)"
    and h1: "h1 = ensure_request_context a h"
    and entry: "map_of (requests h1 a) REQUEST_CONTEXT_KEY = Some (VDict d)"
    and len: "length outs = length ps"
    and calls: "\<forall>i<length ps.
           (ps ! i) (VReq a)
             (h1\<lparr>dicts := (dicts h1)(d := foldl dict_update (dicts h1 d) (take i outs))\<rparr>)
           = Inr (outs ! i)"
  shows "context_processors_middleware cfg a handler h =
           handler (VReq a)
             (h1\<lparr>dicts := (dicts h1)(d := foldl dict_update (dicts h1 d) outs)\<rparr>)
       \<and> (map_of (requests h a) REQUEST_CONTEXT_KEY = None \<longrightarrow> d = fresh h \<and> dicts h1 d = [])
       \<and> (\<forall>i k v. i < length outs \<and> map_of (outs ! i) k = Some v
              \<and> distinct (map fst (outs ! i))
              \<and> (\<forall>j. i < j \<and> j < length outs \<longrightarrow> k \<notin> fst ` set (outs ! j))
            \<longrightarrow> map_of (foldl dict_update (dicts h1 d) outs) k = Some v)"
proof -
  have run: "run_processors ps a h1 =
           (None, h1\<lparr>dicts := (dicts h1)(d := foldl dict_update (dicts h1 d) outs)\<rparr>)"
    using entry len calls by (rule run_processors_dict)
  have a: "context_processors_middleware cfg a handler h =
           handler (VReq a)
             (h1\<lparr>dicts := (dicts h1)(d := foldl dict_update (dicts h1 d) outs)\<rparr>)"
    using procs run h1 by (simp add: context_processors_middleware_def)
  have b: "map_of (requests h a) REQUEST_CONTEXT_KEY = None \<longrightarrow> d = fresh h \<and> dicts h1 d = []"
    using entry h1 ensure_request_context_absent [of h a] by auto
  have c: "\<forall>i k v. i < length outs \<and> map_of (outs ! i) k = Some v
              \<and> distinct (map fst (outs ! i))
              \<and> (\<forall>j. i < j \<and> j < length outs \<longrightarrow> k \<notin> fst ` set (outs ! j))
            \<longrightarrow> map_of (foldl dict_update (dicts h1 d) outs) k = Some v"
    by (intro allI impI, elim conjE) (rule map_of_foldl_dict_update_last; assumption)
  from a b c show ?thesis by blast
qed

text \<open>
  C10.  When the request already holds an accumulated context (the dict \<open>d\<close>) before the
  middleware runs, the middleware creates no dict and leaves the request's store as it is,
  so the entry is still \<open>d\<close>; the returns of the processors are merged into \<open>d\<close> itself.
  A key that no processor returns keeps its value; a key that a processor returns has the
  value of the last processor that returns it.
\<close>

theorem middleware_keeps_existing_context:
  assumes procs: "cfg a APP_CONTEXT_PROCESSORS_KEY = Some (AProcessors ps)"
    and entry: "map_of (requests h a) REQUEST_CONTEXT_KEY = Some (VDict d)"
    and len: "length outs = length ps"
    and calls: "\<forall>i<length ps.
           (ps ! i) (VReq a)
             (h\<lparr>dicts := (dicts h)(d := foldl dict_update (dicts h d) (take i outs))\<rparr>)
           = Inr (outs ! i)"
  shows "\<exists>h'. context_processors_middleware cfg a handler h = handler (VReq a) h'
           \<and> requests h' = requests h
           \<and> map_of (requests h' a) REQUEST_CONTEXT_KEY = Some (VDict d)
           \<and> fresh h' = fresh h
           \<and> (\<forall>d'. d' \<noteq> d \<longrightarrow> dicts h' d' = dicts h d')
           \<and> dicts h' d = foldl dict_update (dicts h d) outs
           \<and> (\<forall>k. (\<forall>out\<in>set outs. k \<notin> fst ` set out)
                 \<longrightarrow> map_of (dicts h' d) k = map_of (dicts h d) k)
           \<and> (\<forall>i k v. i < length outs \<and> map_of (outs ! i) k = Some v
                  \<and> distinct (map fst (outs ! i))
                  \<and> (\<forall>j. i < j \<and> j < length outs \<longrightarrow> k \<notin> fst ` set (outs ! j))
                \<longrightarrow> map_of (dicts h' d) k = Some v)"
proof -
  let ?h' = "h\<lparr>dicts := (dicts h)(d := foldl dict_update (dicts h d) outs)\<rparr>"
  have same: "ensure_request_context a h = h"
    using entry by (rule ensure_request_context_present)
  have run: "run_processors ps a h = (None, ?h')"
    using entry len calls by (rule run_processors_dict)
  have a: "context_processors_middleware cfg a handler h = handler (VReq a) ?h'"
    using procs run same by (simp add: context_processors_middleware_def)
  have b: "requests ?h' = requests h" "fresh ?h' = fresh h"
    "map_of (requests ?h' a) REQUEST_CONTEXT_KEY = Some (VDict d)"
    "\<forall>d'. d' \<noteq> d \<longrightarrow> dicts ?h' d' = dicts h d'"
    "dicts ?h' d = foldl dict_update (dicts h d) outs"
    using entry by simp_all
  have dd: "dicts ?h' d = foldl dict_update (dicts h d) outs" by simp
  have c: "\<forall>k. (\<forall>out\<in>set outs. k \<notin> fst ` set out)
                 \<longrightarrow> map_of (dicts ?h' d) k = map_of (dicts h d) k"
    by (simp add: map_of_foldl_dict_update_other)
  have e: "\<forall>i k v. i < length outs \<and> map_of (outs ! i) k = Some v
                  \<and> distinct (map fst (outs ! i))
                  \<and> (\<forall>j. i < j \<and> j < length outs \<longrightarrow> k \<notin> fst ` set (outs ! j))
                \<longrightarrow> map_of (dicts ?h' d) k = Some v"
    unfolding dd
    by (intro allI impI, elim conjE) (rule map_of_foldl_dict_update_last; assumption)
  from a b c e show ?thesis by blast
qed

lemma example_processor_calls:
  "\<forall>i<length [P1, P2]. ([P1, P2] ! i) (VReq a) (f i) = Inr ([[(''a'', VInt 1)], [(''a'', VInt 2)]] ! i)"
  by (auto simp: less_Suc_eq P1_def P2_def)

text \<open>
  In the example: \<open>P1\<close> returns \<open>{a: 1}\<close>, then \<open>P2\<close> returns \<open>{a: 2}\<close>; the accumulated context of request 8 has \<open>a = 2\<close>.
\<close>

theorem middleware_accumulates_in_order_witness:
  "fst (context_processors_middleware example_config 8 next_handler example_heap) = Inr (VResp 7)
   \<and> map_of (requests (snd (context_processors_middleware example_config 8 next_handler
          example_heap)) 8) REQUEST_CONTEXT_KEY = Some (VDict 20)
   \<and> dicts (snd (context_processors_middleware example_config 8 next_handler example_heap)) 20
       = [(''a'', VInt 2)]"
proof -
  have procs: "example_config 8 APP_CONTEXT_PROCESSORS_KEY = Some (AProcessors [P1, P2])"
    by simp
  have entry: "map_of (requests (ensure_request_context 8 example_heap) 8) REQUEST_CONTEXT_KEY
                 = Some (VDict 20)"
    by (simp add: ensure_request_context_def new_dict_def)
  have len: "length [[(''a'', VInt 1)], [(''a'', VInt 2)]] = length [P1, P2]"
    by simp
  have calls: "\<forall>i<length [P1, P2]. ([P1, P2] ! i) (VReq 8)
      ((ensure_request_context 8 example_heap)
         \<lparr>dicts := (dicts (ensure_request_context 8 example_heap))
            (20 := foldl dict_update (dicts (ensure_request_context 8 example_heap) 20)
                    (take i [[(''a'', VInt 1)], [(''a'', VInt 2)]]))\<rparr>)
      = Inr ([[(''a'', VInt 1)], [(''a'', VInt 2)]] ! i)"
    by (rule example_processor_calls)
  from middleware_accumulates_in_order [where cfg = example_config and a = 8
      and handler = next_handler, OF procs refl entry len calls]
  show ?thesis
    by (simp add: next_handler_def dict_update_def ensure_request_context_def new_dict_def)
qed

text \<open>
  In the example: request 0 holds \<open>{k: 1, a: 0}\<close>; \<open>k\<close> survives, \<open>a\<close> is overridden.
\<close>

theorem middleware_keeps_existing_context_witness:
  "fst (context_processors_middleware example_config 0 next_handler example_heap) = Inr (VResp 7)
   \<and> requests (snd (context_processors_middleware example_config 0 next_handler example_heap)) 0
       = [(REQUEST_CONTEXT_KEY, VDict 6)]
   \<and> fresh (snd (context_processors_middleware example_config 0 next_handler example_heap)) = 20
   \<and> dicts (snd (context_processors_middleware example_config 0 next_handler example_heap)) 6
       = [(''k'', VInt 1), (''a'', VInt 2)]"
proof -
  have procs: "example_config 0 APP_CONTEXT_PROCESSORS_KEY = Some (AProcessors [P1, P2])"
    by simp
  have entry: "map_of (requests example_heap 0) REQUEST_CONTEXT_KEY = Some (VDict 6)"
    by simp
  have len: "length [[(''a'', VInt 1)], [(''a'', VInt 2)]] = length [P1, P2]"
    by simp
  have calls: "\<forall>i<length [P1, P2]. ([P1, P2] ! i) (VReq 0)
      (example_heap
         \<lparr>dicts := (dicts example_heap)
            (6 := foldl dict_update (dicts example_heap 6)
                    (take i [[(''a'', VInt 1)], [(''a'', VInt 2)]]))\<rparr>)
      = Inr ([[(''a'', VInt 1)], [(''a'', VInt 2)]] ! i)"
    by (rule example_processor_calls)
  from middleware_keeps_existing_context [where cfg = example_config and a = 0
      and handler = next_handler, OF procs entry len calls]
  show ?thesis
    by (auto simp: next_handler_def dict_update_def)
qed

end
